theory Spec2Isabelle
  imports Complex_Main "HOL-Library.Log_Nat"
begin

section \<open>Python values and errors\<close>

text \<open>
  The platform integration client exchanges JSON-shaped dictionaries. A Python value is one
  of the JSON shapes; a float is kept as the rational it denotes (\<open>nan\<close> and the
  infinities are not JSON and are left out). A dictionary is an association list in
  insertion order.
\<close>

datatype pyval =
    PNone
  | PBool bool
  | PInt int
  | PFloat rat
  | PStr string
  | PList "pyval list"
  | PDict "(string \<times> pyval) list"

type_synonym pydict = "(string \<times> pyval) list"

text \<open>The exceptions the modelled code can meet: the class name and \<open>str(e)\<close>.\<close>

datatype py_exception = PyExc string string

fun exc_class :: "py_exception \<Rightarrow> string" where
  "exc_class (PyExc c m) = c"

fun exc_str :: "py_exception \<Rightarrow> string" where
  "exc_str (PyExc c m) = m"

definition ZeroDivisionError :: py_exception where
  "ZeroDivisionError = PyExc ''ZeroDivisionError'' ''division by zero''"

definition IndexError :: py_exception where
  "IndexError = PyExc ''IndexError'' ''list index out of range''"

text \<open>Python's truth value of an object, as \<open>if not x\<close> tests it.\<close>

fun truthy :: "pyval \<Rightarrow> bool" where
  "truthy PNone = False"
| "truthy (PBool b) = b"
| "truthy (PInt i) = (i \<noteq> 0)"
| "truthy (PFloat r) = (r \<noteq> 0)"
| "truthy (PStr s) = (s \<noteq> [])"
| "truthy (PList xs) = (xs \<noteq> [])"
| "truthy (PDict kvs) = (kvs \<noteq> [])"

text \<open>
  A dictionary key is the hash-equality class of a hashable value: \<open>True\<close>, \<open>1\<close> and
  \<open>1.0\<close> are one key. Lists and dictionaries are unhashable, and using one as a key
  raises \<open>TypeError\<close>.
\<close>

datatype pykey = KNone | KInt int | KFrac rat | KStr string

fun type_name :: "pyval \<Rightarrow> string" where
  "type_name PNone = ''NoneType''"
| "type_name (PBool b) = ''bool''"
| "type_name (PInt i) = ''int''"
| "type_name (PFloat r) = ''float''"
| "type_name (PStr s) = ''str''"
| "type_name (PList xs) = ''list''"
| "type_name (PDict kvs) = ''dict''"

definition unhashable :: "pyval \<Rightarrow> py_exception" where
  "unhashable v = PyExc ''TypeError'' (''unhashable type: '' @ [CHR 0x27] @ type_name v @ [CHR 0x27])"

fun key_of :: "pyval \<Rightarrow> py_exception + pykey" where
  "key_of PNone = Inr KNone"
| "key_of (PBool b) = Inr (KInt (if b then 1 else 0))"
| "key_of (PInt i) = Inr (KInt i)"
| "key_of (PFloat r) = Inr (if r = of_int \<lfloor>r\<rfloor> then KInt \<lfloor>r\<rfloor> else KFrac r)"
| "key_of (PStr s) = Inr (KStr s)"
| "key_of (PList xs) = Inl (unhashable (PList xs))"
| "key_of (PDict kvs) = Inl (unhashable (PDict kvs))"

text \<open>\<open>d.get(k)\<close> and \<open>d.get(k, default)\<close>.\<close>

definition dict_get :: "pydict \<Rightarrow> string \<Rightarrow> pyval" where
  "dict_get d k = (case map_of d k of None \<Rightarrow> PNone | Some v \<Rightarrow> v)"

definition dict_get_default :: "pydict \<Rightarrow> string \<Rightarrow> pyval \<Rightarrow> pyval" where
  "dict_get_default d k dflt = (case map_of d k of None \<Rightarrow> dflt | Some v \<Rightarrow> v)"

text \<open>\<open>k in d\<close> for a string key.\<close>

definition dict_has :: "pydict \<Rightarrow> string \<Rightarrow> bool" where
  "dict_has d k = (map_of d k \<noteq> None)"

subsection \<open>Floats\<close>

text \<open>
  A Python float is an IEEE binary64 number. A finite float is kept as the rational it
  denotes; the two infinities are values of their own (\<open>nan\<close> and the sign of zero
  play no part in the arithmetic modelled here).
\<close>

datatype pyfloat = Finite rat | PosInf | NegInf

definition OverflowError :: py_exception where
  "OverflowError = PyExc ''OverflowError'' ''integer division result too large for a float''"

text \<open>Rounding to the nearest integer, a tie going to the even one.\<close>

definition round_half_even :: "rat \<Rightarrow> int" where
  "round_half_even x =
     (let f = \<lfloor>x\<rfloor>; r = x - of_int f
      in if r < 1 / 2 then f else if 1 / 2 < r then f + 1 else if even f then f else f + 1)"

text \<open>
  The binary exponent of a positive rational \<open>x\<close>, the integer \<open>e\<close> with
  \<open>2 ^ e \<le> x < 2 ^ (e + 1)\<close>, from the bit length of the integer part of \<open>x\<close> or
  of \<open>1 / x\<close>.
\<close>

definition ilog2 :: "rat \<Rightarrow> int" where
  "ilog2 x = (if 1 \<le> x then bitlen \<lfloor>x\<rfloor> - 1 else - bitlen (\<lceil>1 / x\<rceil> - 1))"

text \<open>
  The binary64 value of an exact result, rounded to nearest, ties to even: 53 significant
  bits, the exponent not below -1022 (below it the spacing stays that of the subnormal
  numbers), and an infinity when the rounded magnitude reaches \<open>2 ^ 1024\<close>.
\<close>

definition round_binary64 :: "rat \<Rightarrow> pyfloat" where
  "round_binary64 x =
     (if x = 0 then Finite 0
      else
        (let q = 2 powi (max (ilog2 \<bar>x\<bar>) (- 1022) - 52);
             y = of_int (round_half_even (x / q)) * q
         in if 2 powi 1024 \<le> \<bar>y\<bar> then (if 0 < x then PosInf else NegInf) else Finite y))"

text \<open>
  True division \<open>a / b\<close> of two Python integers: \<open>ZeroDivisionError\<close> when \<open>b\<close> is
  zero, otherwise the correctly rounded quotient, and \<open>OverflowError\<close> when that is too
  large for a float. The result, when there is one, is a finite float.
\<close>

definition truediv :: "int \<Rightarrow> int \<Rightarrow> py_exception + rat" where
  "truediv a b =
     (if b = 0 then Inl ZeroDivisionError
      else (case round_binary64 (of_int a / of_int b) of
              Finite v \<Rightarrow> Inr v
            | PosInf \<Rightarrow> Inl OverflowError
            | NegInf \<Rightarrow> Inl OverflowError))"

text \<open>
  The product and the difference of two finite floats: the exact result rounded, an
  overflow giving an infinity and no exception.
\<close>

definition float_mul :: "rat \<Rightarrow> rat \<Rightarrow> pyfloat" where
  "float_mul x y = round_binary64 (x * y)"

definition float_sub :: "rat \<Rightarrow> rat \<Rightarrow> pyfloat" where
  "float_sub x y = round_binary64 (x - y)"

section \<open>The platform integration client (lmarena\_platform\_integration.py)\<close>

subsection \<open>State\<close>

text \<open>
  \<open>self.stats\<close>, \<open>self.last_heartbeat\<close> and \<open>self.active_requests\<close> of class
  \<open>PlatformIntegration\<close>. The counters are Python integers. Time stamps are the floats
  \<open>time.time()\<close> returns, kept as rationals. The connection fields (session, heartbeat
  task, configuration) are not read by the functions modelled here.
\<close>

record stats_dict =
  requests_processed :: int
  requests_successful :: int
  requests_failed :: int
  last_request_time :: "rat option"
  uptime_start :: rat

record active_request =
  start_time :: rat
  request_type :: pyval

record platform_integration =
  stats :: stats_dict
  last_heartbeat :: "rat option"
  active_requests :: "pykey \<rightharpoonup> active_request"

text \<open>\<open>__init__\<close>: the counters start at zero and no request is active.\<close>

definition init :: "rat \<Rightarrow> platform_integration" where
  "init now =
     \<lparr> stats = \<lparr> requests_processed = 0, requests_successful = 0, requests_failed = 0,
                 last_request_time = None, uptime_start = now \<rparr>,
       last_heartbeat = None,
       active_requests = Map.empty \<rparr>"

subsection \<open>get\_stats\<close>

text \<open>
  The dictionary \<open>get_stats\<close> returns. \<open>len(self.active_requests)\<close> is the number of
  keys of the dictionary, given here by \<open>card (dom m)\<close>.
\<close>

record stats_report =
  r_requests_processed :: int
  r_requests_successful :: int
  r_requests_failed :: int
  r_success_rate :: pyfloat
  r_uptime_seconds :: pyfloat
  r_last_request_time :: "rat option"
  r_last_heartbeat :: "rat option"
  r_active_requests :: nat

text \<open>
  The expression \<open>requests_successful / max(requests_processed, 1) * 100\<close>: a true
  division of integers, then a float product with the integer 100 (which is a float
  exactly).
\<close>

definition success_rate :: "stats_dict \<Rightarrow> py_exception + pyfloat" where
  "success_rate st =
     (case truediv (requests_successful st) (max (requests_processed st) 1) of
        Inl e \<Rightarrow> Inl e
      | Inr q \<Rightarrow> Inr (float_mul q 100))"

definition get_stats :: "rat \<Rightarrow> platform_integration \<Rightarrow> py_exception + stats_report" where
  "get_stats now self =
     (let uptime = float_sub now (uptime_start (stats self)) in
      case success_rate (stats self) of
        Inl e \<Rightarrow> Inl e
      | Inr rate \<Rightarrow>
          Inr \<lparr> r_requests_processed = requests_processed (stats self),
                r_requests_successful = requests_successful (stats self),
                r_requests_failed = requests_failed (stats self),
                r_success_rate = rate,
                r_uptime_seconds = uptime,
                r_last_request_time = last_request_time (stats self),
                r_last_heartbeat = last_heartbeat self,
                r_active_requests = card (dom (active_requests self)) \<rparr>)"

subsection \<open>record\_request\<close>

definition record_request :: "rat \<Rightarrow> bool \<Rightarrow> platform_integration \<Rightarrow> platform_integration" where
  "record_request now success self =
     (let st = stats self;
          st1 = st\<lparr> requests_processed := requests_processed st + 1,
                    last_request_time := Some now \<rparr>;
          st2 = (if success
                 then st1\<lparr> requests_successful := requests_successful st1 + 1 \<rparr>
                 else st1\<lparr> requests_failed := requests_failed st1 + 1 \<rparr>)
      in self\<lparr> stats := st2 \<rparr>)"

subsection \<open>handle\_platform\_request\<close>

text \<open>
  The three request handlers are methods of the class; in the source they are placeholders
  that return a fixed dictionary. \<open>handle_platform_request\<close> is modelled over any
  handlers that, given the request, return a dictionary or raise an \<open>Exception\<close>, so
  that the \<open>except\<close> branch of the source is a branch of the model.
\<close>

record handlers =
  handle_chat_completion :: "pydict \<Rightarrow> py_exception + pydict"
  handle_models_list :: "pydict \<Rightarrow> py_exception + pydict"
  handle_image_generation :: "pydict \<Rightarrow> py_exception + pydict"

definition placeholder_handlers :: handlers where
  "placeholder_handlers =
     \<lparr> handle_chat_completion = (\<lambda>request_data. Inr
         [(''type'', PStr ''chat_completion''),
          (''status'', PStr ''processing''),
          (''message'', PStr ''Chat completion request received and being processed'')]),
       handle_models_list = (\<lambda>request_data. Inr
         [(''type'', PStr ''models_list''),
          (''models'', PList []),
          (''message'', PStr ''Models list request processed'')]),
       handle_image_generation = (\<lambda>request_data. Inr
         [(''type'', PStr ''image_generation''),
          (''status'', PStr ''processing''),
          (''message'', PStr ''Image generation request received and being processed'')]) \<rparr>"

text \<open>The routing on \<open>request_type\<close> inside the \<open>try\<close> block.\<close>

definition route_request :: "handlers \<Rightarrow> (pyval \<Rightarrow> string) \<Rightarrow> pyval \<Rightarrow> pydict \<Rightarrow> py_exception + pydict" where
  "route_request hs py_str rtype request_data =
     (if rtype = PStr ''chat_completion'' then handle_chat_completion hs request_data
      else if rtype = PStr ''models_list'' then handle_models_list hs request_data
      else if rtype = PStr ''image_generation'' then handle_image_generation hs request_data
      else Inr [(''error'', PStr (''Unsupported request type: '' @ py_str rtype))])"

text \<open>
  Python's \<open>str\<close> is the identity on a string. The concrete requests used further down
  format strings only, so this function stands for \<open>str\<close> there.
\<close>

fun example_str :: "pyval \<Rightarrow> string" where
  "example_str (PStr s) = s"
| "example_str v = []"

text \<open>The \<open>finally\<close> block: the entry is deleted when it is present.\<close>

definition finally_cleanup :: "pykey \<Rightarrow> platform_integration \<Rightarrow> platform_integration" where
  "finally_cleanup k self =
     (if k \<in> dom (active_requests self)
      then self\<lparr> active_requests := (active_requests self)(k := None) \<rparr>
      else self)"

text \<open>
  \<open>handle_platform_request\<close>. \<open>py_str\<close> is Python's \<open>str\<close> on the request type
  (the f-string of the unsupported-type message); \<open>t0\<close> and \<open>t1\<close> are the values of
  \<open>time.time()\<close> when the entry is stored and when the request is recorded. The result
  is the returned dictionary, or the exception that leaves the function, and the state
  after the call.

  When \<open>request_id\<close> is an unhashable value the store raises \<open>TypeError\<close> inside
  \<open>try\<close>; the \<open>except\<close> branch records a failed request, and the membership test
  of the \<open>finally\<close> block raises \<open>TypeError\<close> again, which replaces the pending
  return value.
\<close>

definition handle_platform_request ::
  "handlers \<Rightarrow> (pyval \<Rightarrow> string) \<Rightarrow> rat \<Rightarrow> rat \<Rightarrow> platform_integration \<Rightarrow> pydict
     \<Rightarrow> (py_exception + pydict) \<times> platform_integration" where
  "handle_platform_request hs py_str t0 t1 self request_data =
     (let request_id = dict_get request_data ''request_id'';
          rtype = dict_get_default request_data ''type'' (PStr ''chat_completion'')
      in if \<not> truthy request_id then (Inr [(''error'', PStr ''Missing request_id'')], self)
         else
           (case key_of request_id of
              Inl e \<Rightarrow> (Inl (unhashable request_id), record_request t1 False self)
            | Inr k \<Rightarrow>
                (let self1 = self\<lparr> active_requests :=
                               (active_requests self)(k \<mapsto> \<lparr> start_time = t0, request_type = rtype \<rparr>) \<rparr>
                 in case route_request hs py_str rtype request_data of
                      Inr result \<Rightarrow>
                        (Inr result,
                         finally_cleanup k (record_request t1 (\<not> dict_has result ''error'') self1))
                    | Inl e \<Rightarrow>
                        (Inr [(''error'', PStr (''Request processing failed: '' @ exc_str e))],
                         finally_cleanup k (record_request t1 False self1)))))"

text \<open>
  The states of a client: the one \<open>__init__\<close> builds, and those that follow by a call of
  \<open>handle_platform_request\<close> (whether it returns or raises) or by the heartbeat storing
  its time stamp. Nothing else in the module writes the counters or the request table.
\<close>

inductive reachable :: "handlers \<Rightarrow> (pyval \<Rightarrow> string) \<Rightarrow> platform_integration \<Rightarrow> bool"
  for hs :: handlers and py_str :: "pyval \<Rightarrow> string" where
  reach_init: "reachable hs py_str (init now)"
| reach_request:
    "reachable hs py_str self \<Longrightarrow>
     reachable hs py_str (snd (handle_platform_request hs py_str t0 t1 self request_data))"
| reach_heartbeat:
    "reachable hs py_str self \<Longrightarrow> reachable hs py_str (self\<lparr> last_heartbeat := Some t \<rparr>)"

text \<open>
  The relation between the counters that \<open>record_request\<close> maintains: each processed
  request was counted once, as successful or as failed.
\<close>

definition counters_ok :: "platform_integration \<Rightarrow> bool" where
  "counters_ok self =
     (0 \<le> requests_successful (stats self) \<and> 0 \<le> requests_failed (stats self) \<and>
      requests_processed (stats self) =
        requests_successful (stats self) + requests_failed (stats self))"

section \<open>The auxiliary Flask services (flask\_services/app.py)\<close>

subsection \<open>String operations\<close>

text \<open>\<open>s.startswith(p)\<close>.\<close>

definition startswith :: "string \<Rightarrow> string \<Rightarrow> bool" where
  "startswith s p = (take (length p) s = p)"

text \<open>
  \<open>s.split(sep)\<close> for a separator of one character: every occurrence splits, and
  adjacent separators give empty strings.
\<close>

fun split_on :: "char \<Rightarrow> string \<Rightarrow> string list" where
  "split_on sep [] = [[]]"
| "split_on sep (c # cs) =
     (if c = sep then [] # split_on sep cs
      else (case split_on sep cs of
              [] \<Rightarrow> [[c]]
            | w # ws \<Rightarrow> (c # w) # ws))"

text \<open>\<open>xs[i]\<close> for a non-negative index: out of range raises \<open>IndexError\<close>.\<close>

definition list_index :: "'a list \<Rightarrow> nat \<Rightarrow> py_exception + 'a" where
  "list_index xs i = (if i < length xs then Inr (xs ! i) else Inl IndexError)"

subsection \<open>require\_api\_key\<close>

text \<open>
  What a wrapped endpoint gives back: the pair \<open>(jsonify(body), status)\<close> of the
  decorator, or whatever the wrapped handler returned.
\<close>

datatype 'r flask_result = Json_status pydict nat | Returned 'r

text \<open>
  \<open>Config.FLASK_API_KEY\<close> is what \<open>os.getenv\<close> gave: \<open>None\<close> or a string. Its truth
  value decides whether credentials are checked.
\<close>

definition key_configured :: "string option \<Rightarrow> bool" where
  "key_configured api_key = (case api_key of None \<Rightarrow> False | Some k \<Rightarrow> k \<noteq> [])"

text \<open>
  \<open>decorated_function\<close> of \<open>require_api_key(f)\<close>. \<open>api_key\<close> is
  \<open>Config.FLASK_API_KEY\<close>, \<open>auth_header\<close> is
  \<open>request.headers.get('Authorization')\<close>. The handler \<open>f\<close> acts on a state, so that
  a call of it is visible: where the handler is not called the state is returned as it was.
\<close>

definition decorated_function ::
  "string option \<Rightarrow> ('s \<Rightarrow> 'r \<times> 's) \<Rightarrow> string option \<Rightarrow> 's
     \<Rightarrow> (py_exception + 'r flask_result) \<times> 's" where
  "decorated_function api_key f auth_header s =
     (if key_configured api_key then
        (case auth_header of
           None \<Rightarrow> (Inr (Json_status [(''error'', PStr ''API key required'')] 401), s)
         | Some h \<Rightarrow>
             if h = [] \<or> \<not> startswith h ''Bearer ''
             then (Inr (Json_status [(''error'', PStr ''API key required'')] 401), s)
             else
               (case list_index (split_on CHR '' '' h) 1 of
                  Inl e \<Rightarrow> (Inl e, s)
                | Inr provided_key \<Rightarrow>
                    if Some provided_key \<noteq> api_key
                    then (Inr (Json_status [(''error'', PStr ''Invalid API key'')] 401), s)
                    else (Inr (Returned (fst (f s))), snd (f s))))
      else (Inr (Returned (fst (f s))), snd (f s)))"

text \<open>
  The token that follows the first space of a header, in the words of the description of
  the check: the characters after the first space, up to the next space or the end.
\<close>

definition token_after_first_space :: "string \<Rightarrow> string" where
  "token_after_first_space h =
     takeWhile (\<lambda>c. c \<noteq> CHR '' '') (drop 1 (dropWhile (\<lambda>c. c \<noteq> CHR '' '') h))"

text \<open>The condition under which a request is let through when a key is configured.\<close>

definition credentials_ok :: "string option \<Rightarrow> string option \<Rightarrow> bool" where
  "credentials_ok api_key auth_header =
     (case auth_header of
        None \<Rightarrow> False
      | Some h \<Rightarrow> startswith h ''Bearer '' \<and> Some (token_after_first_space h) = api_key)"

section \<open>The payload translator of the gateway\<close>

text \<open>
  The gateway module \<open>api_server\<close> is exercised by the tests of the repository but its
  file is not among the sources. The payload translator
  (\<open>convert_openai_to_lmarena_payload\<close> in the tests) is therefore modelled from its
  description, rule by rule and in the order in which the rules are given.
\<close>

subsection \<open>Data\<close>

text \<open>
  Modelled from the spec: the content of an OpenAI message of the missing \<open>api_server\<close>
  module, a bare string or a list of typed parts. A part is a text part, or an
  \<open>image_url\<close>-like part holding a URI and an optional \<open>detail\<close> field.
\<close>

datatype content_part = Text_part string | Url_part string "string option"

text \<open>Modelled from the spec: the two shapes of a message's content (missing \<open>api_server\<close>).\<close>

datatype message_content = Bare string | Parts "content_part list"

text \<open>
  Modelled from the spec: an OpenAI message as the missing translator receives it. A
  malformed message lacks its role or its content.
\<close>

record openai_message =
  msg_role :: "string option"
  msg_content :: "message_content option"

text \<open>Modelled from the spec: the OpenAI-shaped request body read by the missing translator.\<close>

record openai_request =
  req_model :: string
  req_messages :: "openai_message list"

text \<open>Modelled from the spec: an Attachment \<open>{name, contentType, url}\<close> of the missing translator.\<close>

record attachment =
  att_name :: string
  att_contentType :: string
  att_url :: string

text \<open>
  Modelled from the spec: a Message Template
  \<open>{role, content, participantPosition, attachments}\<close>, the unit of the backend payload
  the missing translator produces.
\<close>

record message_template =
  role :: string
  content :: string
  participantPosition :: string
  attachments :: "attachment list"

text \<open>Modelled from the spec: the backend payload returned by the missing translator.\<close>

record lmarena_payload =
  session_id :: string
  message_id :: string
  target_model_id :: "string option"
  message_templates :: "message_template list"

text \<open>Modelled from the spec: the Conversational Mode read by the missing translator.\<close>

datatype conv_mode = Direct_chat | Battle

text \<open>Modelled from the spec: the battle target side \<open>A\<close> or \<open>B\<close> of the configuration.\<close>

datatype battle_side = Side_A | Side_B

text \<open>
  Modelled from the spec: the mode and its two independent modifiers, as the configuration
  gives them to the missing translator.
\<close>

record mode_config =
  conv_mode :: conv_mode
  battle_target :: battle_side
  tavern_mode :: bool
  bypass_mode :: bool

text \<open>Modelled from the spec: the failure of the missing translator on a malformed message.\<close>

datatype translate_error = ValidationError

subsection \<open>Rules 2 to 4: one message\<close>

text \<open>Modelled from the spec: rule 2 of the missing translator, \<open>developer\<close> becomes \<open>system\<close>.\<close>

definition normalize_role :: "string \<Rightarrow> string" where
  "normalize_role r = (if r = ''developer'' then ''system'' else r)"

text \<open>
  Modelled from the spec: the text of a message's content in rule 3 of the missing
  translator. Text parts concatenate in source order with no separator.
\<close>

fun part_text :: "content_part \<Rightarrow> string" where
  "part_text (Text_part t) = t"
| "part_text (Url_part u d) = []"

fun content_text :: "message_content \<Rightarrow> string" where
  "content_text (Bare t) = t"
| "content_text (Parts ps) = concat (map part_text ps)"

text \<open>
  Modelled from the spec: the content type of a data URI in rule 3 of the missing
  translator, its media-type segment (between \<open>data:\<close> and the first \<open>;\<close> or
  \<open>,\<close>). A URI of another scheme gives no attachment.
\<close>

definition data_uri_content_type :: "string \<Rightarrow> string option" where
  "data_uri_content_type u =
     (if take 5 u = ''data:''
      then Some (takeWhile (\<lambda>c. c \<noteq> CHR '';'' \<and> c \<noteq> CHR '','') (drop 5 u))
      else None)"

text \<open>
  Modelled from the spec: the generated attachment name of the missing translator,
  \<open>{category}_{suffix}.{extension}\<close>: the category is the primary token of the content
  type, the extension what follows the slash. The suffix (random or sequential) is given.
\<close>

definition generated_name :: "string \<Rightarrow> string \<Rightarrow> string" where
  "generated_name suffix ctype =
     takeWhile (\<lambda>c. c \<noteq> CHR ''/'') ctype @ ''_'' @ suffix @ ''.'' @
     drop 1 (dropWhile (\<lambda>c. c \<noteq> CHR ''/'') ctype)"

text \<open>
  Modelled from the spec: the attachments of a list of parts in rule 3 of the missing
  translator. \<open>suffix_of i\<close> is the suffix for the part at position \<open>i\<close>.
\<close>

fun part_attachments :: "(nat \<Rightarrow> string) \<Rightarrow> nat \<Rightarrow> content_part list \<Rightarrow> attachment list" where
  "part_attachments suffix_of i [] = []"
| "part_attachments suffix_of i (Text_part t # ps) = part_attachments suffix_of (Suc i) ps"
| "part_attachments suffix_of i (Url_part u d # ps) =
     (case data_uri_content_type u of
        None \<Rightarrow> part_attachments suffix_of (Suc i) ps
      | Some ctype \<Rightarrow>
          \<lparr> att_name = (case d of Some n \<Rightarrow> n | None \<Rightarrow> generated_name (suffix_of i) ctype),
            att_contentType = ctype, att_url = u \<rparr>
          # part_attachments suffix_of (Suc i) ps)"

fun content_attachments :: "(nat \<Rightarrow> string) \<Rightarrow> message_content \<Rightarrow> attachment list" where
  "content_attachments suffix_of (Bare t) = []"
| "content_attachments suffix_of (Parts ps) = part_attachments suffix_of 0 ps"

text \<open>Modelled from the spec: white space, for the all-whitespace test of rule 4.\<close>

definition is_space :: "char \<Rightarrow> bool" where
  "is_space c = (c \<in> set [CHR '' '', CHR 0x09, CHR 0x0A, CHR 0x0B, CHR 0x0C, CHR 0x0D])"

text \<open>
  Modelled from the spec: a message after rules 2 to 4 of the missing translator, its
  normalized role, its text and its attachments.
\<close>

record processed_message =
  p_role :: string
  p_text :: string
  p_attachments :: "attachment list"

text \<open>
  Modelled from the spec: rules 2, 3 and 4 of the missing translator on one message. A
  message without role or content is a \<open>ValidationError\<close>; a user message whose text is
  empty or all white space gets a single space.
\<close>

definition process_openai_message ::
  "(nat \<Rightarrow> string) \<Rightarrow> openai_message \<Rightarrow> translate_error + processed_message" where
  "process_openai_message suffix_of m =
     (case (msg_role m, msg_content m) of
        (Some r, Some c) \<Rightarrow>
          (let r' = normalize_role r;
               t = content_text c
           in Inr \<lparr> p_role = r',
                    p_text = (if r' = ''user'' \<and> list_all is_space t then '' '' else t),
                    p_attachments = content_attachments suffix_of c \<rparr>)
      | _ \<Rightarrow> Inl ValidationError)"

text \<open>
  Modelled from the spec: the missing translator's pass over all messages; the first
  malformed message fails the translation.
\<close>

fun process_messages ::
  "(nat \<Rightarrow> string) \<Rightarrow> openai_message list \<Rightarrow> translate_error + processed_message list" where
  "process_messages suffix_of [] = Inr []"
| "process_messages suffix_of (m # ms) =
     (case process_openai_message suffix_of m of
        Inl e \<Rightarrow> Inl e
      | Inr p \<Rightarrow>
          (case process_messages suffix_of ms of
             Inl e \<Rightarrow> Inl e
           | Inr ps \<Rightarrow> Inr (p # ps)))"

subsection \<open>Rule 5: shaping by the conversational mode\<close>

text \<open>
  Modelled from the spec: the texts joined with a blank line between them, for the tavern
  merge of the missing translator.
\<close>

fun join_blank_line :: "string list \<Rightarrow> string" where
  "join_blank_line [] = []"
| "join_blank_line [t] = t"
| "join_blank_line (t # u # ts) = t @ [CHR 0x0A, CHR 0x0A] @ join_blank_line (u # ts)"

text \<open>
  Modelled from the spec: the tavern merge of the missing translator. The leading run of
  system messages becomes one system message, with empty attachments; a list that does
  not start with a system message is left as it is.
\<close>

definition merge_leading_system :: "processed_message list \<Rightarrow> processed_message list" where
  "merge_leading_system ps =
     (let sys = takeWhile (\<lambda>p. p_role p = ''system'') ps;
          others = dropWhile (\<lambda>p. p_role p = ''system'') ps
      in if sys = [] then ps
         else \<lparr> p_role = ''system'', p_text = join_blank_line (map p_text sys),
                p_attachments = [] \<rparr> # others)"

text \<open>
  Modelled from the spec: the participant position the missing translator assigns. In
  direct chat a system message gets \<open>b\<close> and the others \<open>a\<close>; in battle mode the
  messages follow the side of the battle target and a system message takes the opposite
  side.
\<close>

definition participant_position :: "mode_config \<Rightarrow> string \<Rightarrow> string" where
  "participant_position cfg r =
     (case conv_mode cfg of
        Direct_chat \<Rightarrow> (if r = ''system'' then ''b'' else ''a'')
      | Battle \<Rightarrow>
          (case battle_target cfg of
             Side_A \<Rightarrow> (if r = ''system'' then ''b'' else ''a'')
           | Side_B \<Rightarrow> (if r = ''system'' then ''a'' else ''b'')))"

text \<open>Modelled from the spec: the template the missing translator builds from one message.\<close>

definition to_template :: "mode_config \<Rightarrow> processed_message \<Rightarrow> message_template" where
  "to_template cfg p =
     \<lparr> role = p_role p, content = p_text p,
       participantPosition = participant_position cfg (p_role p),
       attachments = p_attachments p \<rparr>"

text \<open>
  Modelled from the spec: the synthetic trailing message the missing translator appends in
  bypass mode.
\<close>

definition bypass_template :: message_template where
  "bypass_template =
     \<lparr> role = ''user'', content = '' '', participantPosition = ''a'', attachments = [] \<rparr>"

text \<open>
  Modelled from the spec: rule 5 of the missing translator, in the order given: the tavern
  merge, the participant positions, then the bypass message.
\<close>

definition shape_templates :: "mode_config \<Rightarrow> processed_message list \<Rightarrow> message_template list" where
  "shape_templates cfg ps =
     (let merged = (if tavern_mode cfg then merge_leading_system ps else ps);
          templates = map (to_template cfg) merged
      in if bypass_mode cfg then templates @ [bypass_template] else templates)"

text \<open>
  Modelled from the spec: the Payload Translator of the missing \<open>api_server\<close> module.
  \<open>model_map\<close> is the Model Mapping store (rule 1: an unknown model gives no target
  id), \<open>suffix_of\<close> supplies the suffixes of generated attachment names.
\<close>

definition convert_openai_to_lmarena_payload ::
  "(string \<rightharpoonup> string) \<Rightarrow> mode_config \<Rightarrow> (nat \<Rightarrow> string) \<Rightarrow> openai_request
     \<Rightarrow> string \<Rightarrow> string \<Rightarrow> translate_error + lmarena_payload" where
  "convert_openai_to_lmarena_payload model_map cfg suffix_of req sid mid =
     (case process_messages suffix_of (req_messages req) of
        Inl e \<Rightarrow> Inl e
      | Inr ps \<Rightarrow>
          Inr \<lparr> session_id = sid, message_id = mid,
                target_model_id = model_map (req_model req),
                message_templates = shape_templates cfg ps \<rparr>)"

section \<open>Properties of the platform integration client\<close>

subsection \<open>Effects of the state updates\<close>

lemma active_requests_record_request [simp]:
  "active_requests (record_request t ok self) = active_requests self"
  by (simp add: record_request_def Let_def)

lemma active_requests_finally_cleanup [simp]:
  "active_requests (finally_cleanup k self) = (active_requests self)(k := None)"
  by (auto simp: finally_cleanup_def)

lemma stats_finally_cleanup [simp]: "stats (finally_cleanup k self) = stats self"
  by (simp add: finally_cleanup_def)

lemma counters_ok_record_request:
  "counters_ok self \<Longrightarrow> counters_ok (record_request t ok self)"
  by (simp add: counters_ok_def record_request_def Let_def)

lemma handle_missing:
  "\<not> truthy (dict_get rd ''request_id'') \<Longrightarrow>
   handle_platform_request hs py_str t0 t1 self rd =
     (Inr [(''error'', PStr ''Missing request_id'')], self)"
  by (simp add: handle_platform_request_def Let_def)

lemma handle_hashable_returns:
  "truthy (dict_get rd ''request_id'') \<Longrightarrow> key_of (dict_get rd ''request_id'') = Inr k \<Longrightarrow>
   \<exists>res. fst (handle_platform_request hs py_str t0 t1 self rd) = Inr res"
  by (auto simp: handle_platform_request_def Let_def split: sum.splits)

lemma handle_hashable_removes:
  "truthy (dict_get rd ''request_id'') \<Longrightarrow> key_of (dict_get rd ''request_id'') = Inr k \<Longrightarrow>
   active_requests (snd (handle_platform_request hs py_str t0 t1 self rd)) =
     (active_requests self)(k := None)"
  by (auto simp: handle_platform_request_def Let_def split: sum.splits)

lemma handle_unhashable:
  "truthy (dict_get rd ''request_id'') \<Longrightarrow> key_of (dict_get rd ''request_id'') = Inl e \<Longrightarrow>
   handle_platform_request hs py_str t0 t1 self rd =
     (Inl (unhashable (dict_get rd ''request_id'')), record_request t1 False self)"
  by (simp add: handle_platform_request_def Let_def)

lemma handle_active_requests_empty:
  "active_requests self = Map.empty \<Longrightarrow>
   active_requests (snd (handle_platform_request hs py_str t0 t1 self rd)) = Map.empty"
  by (auto simp: handle_platform_request_def Let_def split: sum.splits)

lemma handle_counters_ok:
  "counters_ok self \<Longrightarrow> counters_ok (snd (handle_platform_request hs py_str t0 t1 self rd))"
  by (auto simp: handle_platform_request_def Let_def counters_ok_def record_request_def
        finally_cleanup_def split: sum.splits)

text \<open>
  Between two calls no request is active, and the counters add up: both hold when the
  object is built and every call keeps them, whichever way it ends.
\<close>

lemma reachable_invariant:
  "reachable hs py_str self \<Longrightarrow> active_requests self = Map.empty \<and> counters_ok self"
proof (induction rule: reachable.induct)
  case (reach_init now)
  show ?case by (simp add: init_def counters_ok_def)
next
  case (reach_request self t0 t1 request_data)
  then show ?case by (simp add: handle_active_requests_empty handle_counters_ok)
next
  case (reach_heartbeat self t)
  then show ?case by (simp add: counters_ok_def)
qed

subsection \<open>The request table is cleaned on every exit path\<close>

text \<open>
  Claim C8. Let \<open>rid\<close> be \<open>request_data.get('request_id')\<close>. For every state of the client,
  every request dictionary and every behaviour of the three handlers:
  \<^item> when \<open>rid\<close> is truthy and hashable, \<open>handle_platform_request\<close> returns a dictionary
    (the handler's result, the unsupported-type error, or the processing-failed error
    built in the \<open>except\<close> branch), and afterwards the key of \<open>rid\<close> is absent from
    \<open>active_requests\<close>, the other entries being as they were;
  \<^item> when \<open>rid\<close> is missing (or falsy), the call returns
    \<open>{'error': 'Missing request_id'}\<close> and the state, so \<open>active_requests\<close> and the
    counters, is unchanged;
  \<^item> in a state the client can reach, \<open>active_requests\<close> is empty after the call, so
    the request's id is absent from it for every request dictionary.
\<close>

theorem handle_platform_request_cleanup:
  "(truthy (dict_get rd ''request_id'') \<and> key_of (dict_get rd ''request_id'') = Inr k \<longrightarrow>
      (\<exists>res. fst (handle_platform_request hs py_str t0 t1 self rd) = Inr res) \<and>
      k \<notin> dom (active_requests (snd (handle_platform_request hs py_str t0 t1 self rd))) \<and>
      active_requests (snd (handle_platform_request hs py_str t0 t1 self rd)) =
        (active_requests self)(k := None))
   \<and> (\<not> truthy (dict_get rd ''request_id'') \<longrightarrow>
      handle_platform_request hs py_str t0 t1 self rd =
        (Inr [(''error'', PStr ''Missing request_id'')], self))
   \<and> (reachable hs py_str self \<longrightarrow>
      active_requests (snd (handle_platform_request hs py_str t0 t1 self rd)) = Map.empty)"
proof (intro conjI impI)
  assume a: "truthy (dict_get rd ''request_id'') \<and> key_of (dict_get rd ''request_id'') = Inr k"
  then show "\<exists>res. fst (handle_platform_request hs py_str t0 t1 self rd) = Inr res"
    by (simp add: handle_hashable_returns)
  from a show rem: "active_requests (snd (handle_platform_request hs py_str t0 t1 self rd)) =
      (active_requests self)(k := None)"
    by (simp add: handle_hashable_removes)
  show "k \<notin> dom (active_requests (snd (handle_platform_request hs py_str t0 t1 self rd)))"
    by (simp add: rem)
next
  assume "\<not> truthy (dict_get rd ''request_id'')"
  then show "handle_platform_request hs py_str t0 t1 self rd =
      (Inr [(''error'', PStr ''Missing request_id'')], self)"
    by (rule handle_missing)
next
  assume "reachable hs py_str self"
  then have "active_requests self = Map.empty" by (simp add: reachable_invariant)
  then show "active_requests (snd (handle_platform_request hs py_str t0 t1 self rd)) = Map.empty"
    by (rule handle_active_requests_empty)
qed

text \<open>
  The theorem at concrete requests: a chat completion served by the placeholder handler,
  a request of an unsupported type, a handler that raises, and a request without an id.
\<close>

theorem handle_platform_request_cleanup_witness:
  "truthy (dict_get [(''request_id'', PStr ''r1'')] ''request_id'')
   \<and> key_of (dict_get [(''request_id'', PStr ''r1'')] ''request_id'') = Inr (KStr ''r1'')
   \<and> fst (handle_platform_request placeholder_handlers example_str 10 11 (init 0)
             [(''request_id'', PStr ''r1'')]) =
       Inr [(''type'', PStr ''chat_completion''), (''status'', PStr ''processing''),
            (''message'', PStr ''Chat completion request received and being processed'')]
   \<and> KStr ''r1'' \<notin> dom (active_requests (snd (handle_platform_request placeholder_handlers
             example_str 10 11 (init 0) [(''request_id'', PStr ''r1'')])))
   \<and> fst (handle_platform_request placeholder_handlers example_str 10 11 (init 0)
             [(''request_id'', PStr ''r1''), (''type'', PStr ''video'')]) =
       Inr [(''error'', PStr ''Unsupported request type: video'')]
   \<and> KStr ''r1'' \<notin> dom (active_requests (snd (handle_platform_request placeholder_handlers
             example_str 10 11 (init 0) [(''request_id'', PStr ''r1''), (''type'', PStr ''video'')])))
   \<and> fst (handle_platform_request
             (placeholder_handlers\<lparr> handle_chat_completion :=
                 (\<lambda>request_data. Inl (PyExc ''RuntimeError'' ''boom'')) \<rparr>)
             example_str 10 11 (init 0) [(''request_id'', PStr ''r1'')]) =
       Inr [(''error'', PStr ''Request processing failed: boom'')]
   \<and> KStr ''r1'' \<notin> dom (active_requests (snd (handle_platform_request
             (placeholder_handlers\<lparr> handle_chat_completion :=
                 (\<lambda>request_data. Inl (PyExc ''RuntimeError'' ''boom'')) \<rparr>)
             example_str 10 11 (init 0) [(''request_id'', PStr ''r1'')])))
   \<and> \<not> truthy (dict_get [(''type'', PStr ''models_list'')] ''request_id'')
   \<and> handle_platform_request placeholder_handlers example_str 10 11 (init 0)
        [(''type'', PStr ''models_list'')] =
       (Inr [(''error'', PStr ''Missing request_id'')], init 0)
   \<and> reachable placeholder_handlers example_str (init 0)
   \<and> active_requests (snd (handle_platform_request placeholder_handlers example_str 10 11 (init 0)
        [(''request_id'', PStr ''r1'')])) = Map.empty"
  using handle_platform_request_cleanup [of "[(''request_id'', PStr ''r1'')]" "KStr ''r1''"
          placeholder_handlers example_str 10 11 "init 0"]
        handle_platform_request_cleanup [of "[(''request_id'', PStr ''r1''), (''type'', PStr ''video'')]"
          "KStr ''r1''" placeholder_handlers example_str 10 11 "init 0"]
        handle_platform_request_cleanup [of "[(''request_id'', PStr ''r1'')]" "KStr ''r1''"
          "placeholder_handlers\<lparr> handle_chat_completion :=
             (\<lambda>request_data. Inl (PyExc ''RuntimeError'' ''boom'')) \<rparr>" example_str 10 11 "init 0"]
        handle_platform_request_cleanup [of "[(''type'', PStr ''models_list'')]" KNone
          placeholder_handlers example_str 10 11 "init 0"]
        reachable.reach_init [of placeholder_handlers example_str 0]
  by (simp add: dict_get_def handle_platform_request_def dict_get_default_def route_request_def
        placeholder_handlers_def dict_has_def Let_def)

subsection \<open>Float rounding\<close>

text \<open>Evaluation of floors, ceilings and bit lengths at numerals.\<close>

lemma floor_rat_numeral [simp]:
  "\<lfloor>numeral a / numeral b :: rat\<rfloor> = numeral a div numeral b"
  by (metis floor_divide_of_int_eq of_int_numeral)

lemma ceiling_rat_numeral [simp]:
  "\<lceil>numeral a / numeral b :: rat\<rceil> = - (- numeral a div numeral b)"
proof -
  have "\<lceil>numeral a / numeral b :: rat\<rceil> = - \<lfloor>of_int (- numeral a) / of_int (numeral b) :: rat\<rfloor>"
    by (simp add: ceiling_def)
  also have "\<dots> = - (- numeral a div numeral b)"
    by (simp only: floor_divide_of_int_eq)
  finally show ?thesis .
qed

lemma bitlen_numeral_simps:
  "bitlen (numeral (Num.Bit0 n)) = bitlen (numeral n) + 1"
  "bitlen (numeral (Num.Bit1 n)) = bitlen (numeral n) + 1"
  "bitlen 1 = 1"
  by (subst compute_bitlen; simp)+

text \<open>Rounding to an integer does not cross an integer.\<close>

lemma round_half_even_le: "x \<le> of_int k \<Longrightarrow> round_half_even x \<le> k"
proof -
  assume le: "x \<le> of_int k"
  then have fk: "\<lfloor>x\<rfloor> \<le> k" by (metis floor_mono floor_of_int)
  show ?thesis
  proof (cases "\<lfloor>x\<rfloor> = k")
    case True
    then have "of_int k \<le> x" by (metis of_int_floor_le)
    with le have "x = of_int k" by simp
    then show ?thesis by (simp add: round_half_even_def)
  next
    case False
    with fk have "\<lfloor>x\<rfloor> + 1 \<le> k" by simp
    then show ?thesis by (simp add: round_half_even_def Let_def)
  qed
qed

lemma round_half_even_nonneg: "0 \<le> x \<Longrightarrow> 0 \<le> round_half_even x"
proof -
  assume "0 \<le> x"
  then have "0 \<le> \<lfloor>x\<rfloor>" by simp
  then show ?thesis by (simp add: round_half_even_def Let_def)
qed

lemma ilog2_bounds:
  assumes "0 < x"
  shows "2 powi ilog2 x \<le> x \<and> x < 2 powi (ilog2 x + 1)"
proof (cases "1 \<le> x")
  case True
  define n where "n = \<lfloor>x\<rfloor>"
  have n1: "1 \<le> n" using True by (simp add: n_def le_floor_iff)
  then have n0: "0 < n" by simp
  have l1: "1 \<le> bitlen n" using n0 by (simp add: bitlen_alt_def)
  from bitlen_bounds [OF n0] have b: "2 ^ nat (bitlen n - 1) \<le> n" "n < 2 ^ nat (bitlen n)"
    by simp_all
  have nx: "of_int n \<le> x" "x < of_int n + 1"
    unfolding n_def using floor_correct [of x] by simp_all
  have p1: "(2::rat) powi (bitlen n - 1) = of_int (2 ^ nat (bitlen n - 1))"
    using l1 by (simp add: power_int_def)
  have p2: "(2::rat) powi (bitlen n - 1 + 1) = of_int (2 ^ nat (bitlen n))"
    using l1 by (simp add: power_int_def)
  have lo: "(2::rat) powi (bitlen n - 1) \<le> x"
    using b(1) nx(1) unfolding p1 by (meson of_int_le_iff order_trans)
  have "n + 1 \<le> 2 ^ nat (bitlen n)" using b(2) by simp
  then have "(of_int n :: rat) + 1 \<le> of_int (2 ^ nat (bitlen n))"
    by (metis of_int_1 of_int_add of_int_le_iff)
  with nx(2) have hi: "x < (2::rat) powi (bitlen n - 1 + 1)" unfolding p2 by simp
  show ?thesis using True lo hi by (simp add: ilog2_def n_def)
next
  case False
  then have x1: "x < 1" by simp
  define y where "y = 1 / x"
  have y1: "1 < y" using assms x1 by (simp add: y_def)
  define m where "m = \<lceil>y\<rceil> - 1"
  have my: "of_int m < y" "y \<le> of_int m + 1"
    unfolding m_def using ceiling_correct [of y] by simp_all
  have m0: "0 < m" using y1 by (simp add: m_def less_ceiling_iff)
  have l1: "1 \<le> bitlen m" using m0 by (simp add: bitlen_alt_def)
  from bitlen_bounds [OF m0] have b: "2 ^ nat (bitlen m - 1) \<le> m" "m < 2 ^ nat (bitlen m)"
    by simp_all
  have xy: "x = 1 / y" using assms by (simp add: y_def)
  have p1: "(2::rat) powi (- bitlen m) = 1 / of_int (2 ^ nat (bitlen m))"
    using l1 by (simp add: power_int_def field_simps)
  have p2: "(2::rat) powi (- bitlen m + 1) = 1 / of_int (2 ^ nat (bitlen m - 1))"
    using l1 by (simp add: power_int_def field_simps nat_diff_distrib)
  have "m + 1 \<le> 2 ^ nat (bitlen m)" using b(2) by simp
  then have "(of_int m :: rat) + 1 \<le> of_int (2 ^ nat (bitlen m))"
    by (metis of_int_1 of_int_add of_int_le_iff)
  with my(2) have yle: "y \<le> of_int (2 ^ nat (bitlen m))" by simp
  have lo: "(2::rat) powi (- bitlen m) \<le> x"
    unfolding p1 xy using yle y1 by (simp add: frac_le)
  have "(of_int (2 ^ nat (bitlen m - 1)) :: rat) \<le> of_int m" using b(1) by (simp only: of_int_le_iff)
  then have ylt: "of_int (2 ^ nat (bitlen m - 1)) < y" using my(1) by (rule le_less_trans)
  have pos: "(0::rat) < of_int (2 ^ nat (bitlen m - 1))" by simp
  have hi: "x < (2::rat) powi (- bitlen m + 1)"
    unfolding p2 xy using ylt pos by (simp add: frac_less2)
  show ?thesis using False lo hi by (simp add: ilog2_def m_def y_def)
qed

lemma ilog2_less:
  assumes "0 < x" and "x < 2 powi n"
  shows "ilog2 x < n"
proof (rule ccontr)
  assume "\<not> ilog2 x < n"
  then have "n \<le> ilog2 x" by simp
  then have "(2::rat) powi n \<le> 2 powi ilog2 x" by (intro power_int_increasing) simp_all
  with ilog2_bounds [OF assms(1)] assms(2) show False by simp
qed

lemma round_binary64_below:
  assumes "0 \<le> x" and "x \<le> of_int g" and "g < 2 ^ 53"
  shows "\<exists>v. round_binary64 x = Finite v \<and> 0 \<le> v \<and> v \<le> of_int g"
proof (cases "x = 0")
  case True
  with assms show ?thesis by (simp add: round_binary64_def)
next
  case False
  with assms have xp: "0 < x" by simp
  have "x < 2 powi 53"
  proof -
    have "(of_int g :: rat) < of_int (2 ^ 53)" using assms(3) by (simp only: of_int_less_iff)
    then show ?thesis using assms(2) by simp
  qed
  then have il: "ilog2 x < 53" using ilog2_less [OF xp, of 53] by simp
  define e where "e = max (ilog2 \<bar>x\<bar>) (- 1022)"
  have e52: "e \<le> 52" using il xp by (simp add: e_def)
  define q :: rat where "q = 2 powi (e - 52)"
  have qpos: "0 < q" by (simp add: q_def)
  define k where "k = g * 2 ^ nat (52 - e)"
  have "q * 2 powi (52 - e) = 1"
    unfolding q_def by (simp flip: power_int_add)
  moreover have "(2::rat) powi (52 - e) = 2 ^ nat (52 - e)"
    using e52 by (simp add: power_int_def)
  ultimately have q1: "q * 2 ^ nat (52 - e) = 1" by simp
  have kq: "of_int k * q = of_int g"
  proof -
    have "of_int k * q = of_int g * (q * 2 ^ nat (52 - e))" by (simp add: k_def)
    then show ?thesis by (simp only: q1 mult_1_right)
  qed
  have "x / q \<le> of_int g / q" using assms(2) qpos by (simp add: divide_right_mono)
  also have "of_int g / q = of_int k" using kq qpos by (simp add: field_simps)
  finally have rk: "round_half_even (x / q) \<le> k" by (rule round_half_even_le)
  have r0: "0 \<le> round_half_even (x / q)" using assms(1) qpos by (intro round_half_even_nonneg) simp
  define y where "y = of_int (round_half_even (x / q)) * q"
  have y0: "0 \<le> y" using r0 qpos by (simp add: y_def)
  have "y \<le> of_int k * q" unfolding y_def using rk qpos by (simp add: mult_right_mono)
  then have yg: "y \<le> of_int g" by (simp only: kq)
  have "(of_int g :: rat) < of_int (2 ^ 53)" using assms(3) by (simp only: of_int_less_iff)
  also have "(of_int (2 ^ 53) :: rat) \<le> 2 powi 1024" by simp
  finally have "y < 2 powi 1024" using yg by simp
  then have fin: "\<not> 2 powi 1024 \<le> \<bar>y\<bar>" using y0 by simp
  have "round_binary64 x = Finite y"
    using False fin unfolding round_binary64_def Let_def y_def q_def e_def by simp
  with y0 yg show ?thesis by blast
qed

subsection \<open>The success rate\<close>

text \<open>A quotient of counters with \<open>0 \<le> a \<le> b\<close> is a float between 0 and 1.\<close>

lemma truediv_unit:
  assumes "0 \<le> a" and "a \<le> b" and "1 \<le> b"
  shows "\<exists>q. truediv a b = Inr q \<and> 0 \<le> q \<and> q \<le> 1"
proof -
  have b0: "(0::rat) < of_int b" using assms(3) by simp
  have x0: "(0::rat) \<le> of_int a / of_int b" using assms(1) b0 by simp
  have "(of_int a :: rat) \<le> of_int b" using assms(2) by simp
  then have x1: "(of_int a :: rat) / of_int b \<le> of_int 1" using b0 by simp
  from round_binary64_below [OF x0 x1] obtain v
    where "round_binary64 (of_int a / of_int b) = Finite v" "0 \<le> v" "v \<le> 1" by auto
  then show ?thesis using assms(3) by (simp add: truediv_def)
qed

lemma float_mul_100:
  assumes "0 \<le> q" and "q \<le> 1"
  shows "\<exists>v. float_mul q 100 = Finite v \<and> 0 \<le> v \<and> v \<le> 100"
proof -
  have x0: "0 \<le> q * 100" using assms(1) by simp
  have x1: "q * 100 \<le> of_int 100" using assms(2) by simp
  from round_binary64_below [OF x0 x1] show ?thesis by (simp add: float_mul_def)
qed

lemma success_rate_bounds:
  assumes "0 \<le> requests_successful st" and "requests_successful st \<le> requests_processed st"
  shows "\<exists>v. success_rate st = Inr (Finite v) \<and> 0 \<le> v \<and> v \<le> 100"
proof -
  have le: "requests_successful st \<le> max (requests_processed st) 1" using assms(2) by simp
  have one: "1 \<le> max (requests_processed st) 1" by simp
  from truediv_unit [OF assms(1) le one] obtain q
    where q: "truediv (requests_successful st) (max (requests_processed st) 1) = Inr q"
      "0 \<le> q" "q \<le> 1" by auto
  from float_mul_100 [OF q(2) q(3)] obtain v
    where "float_mul q 100 = Finite v" "0 \<le> v" "v \<le> 100" by auto
  then show ?thesis using q(1) by (simp add: success_rate_def)
qed

lemma success_rate_zero:
  "requests_successful st = 0 \<Longrightarrow> success_rate st = Inr (Finite 0)"
  by (simp add: success_rate_def truediv_def float_mul_def round_binary64_def)

lemma success_rate_no_zero_division: "success_rate st \<noteq> Inl ZeroDivisionError"
proof -
  have "max (requests_processed st) 1 \<noteq> 0" by simp
  then show ?thesis
    by (simp add: success_rate_def truediv_def ZeroDivisionError_def OverflowError_def
          split: pyfloat.splits)
qed

lemma get_stats_rate:
  "success_rate (stats self) = Inr rate \<Longrightarrow>
   \<exists>r. get_stats now self = Inr r \<and> r_success_rate r = rate"
  by (simp add: get_stats_def Let_def)

text \<open>
  Outside the states the client reaches the division can overflow: with
  \<open>requests_successful = 2 ^ 1024\<close> and nothing processed the call raises
  \<open>OverflowError\<close>.
\<close>

lemma get_stats_overflow_unreachable_state:
  "get_stats 20 \<lparr> stats = \<lparr> requests_processed = 0, requests_successful = 2 ^ 1024,
        requests_failed = 0, last_request_time = None, uptime_start = 5 \<rparr>,
        last_heartbeat = None, active_requests = Map.empty \<rparr> = Inl OverflowError"
  by (simp add: get_stats_def success_rate_def truediv_def round_binary64_def ilog2_def
        round_half_even_def Let_def bitlen_numeral_simps)

text \<open>
  Claim C10. The division of \<open>get_stats\<close> never raises \<open>ZeroDivisionError\<close>, in any
  state, because its divisor is \<open>max(requests_processed, 1)\<close>. In every state the
  client reaches from \<open>__init__\<close>, \<open>get_stats\<close> returns a report, whose rate is a
  finite float between 0 and 100, and 0.0 when \<open>requests_processed\<close> is 0. For all
  counters with \<open>0 \<le> requests_successful \<le> requests_processed\<close> it returns a report
  whose rate is a finite float between 0 and 100.
\<close>

theorem get_stats_success_rate:
  "get_stats now self \<noteq> Inl ZeroDivisionError
   \<and> (reachable hs py_str self \<longrightarrow>
        (\<exists>r v. get_stats now self = Inr r \<and> r_success_rate r = Finite v \<and>
               0 \<le> v \<and> v \<le> 100 \<and> (requests_processed (stats self) = 0 \<longrightarrow> v = 0)))
   \<and> (0 \<le> requests_successful (stats self) \<and>
        requests_successful (stats self) \<le> requests_processed (stats self) \<longrightarrow>
        (\<exists>r v. get_stats now self = Inr r \<and> r_success_rate r = Finite v \<and>
               0 \<le> v \<and> v \<le> 100))"
proof (intro conjI impI)
  show "get_stats now self \<noteq> Inl ZeroDivisionError"
    using success_rate_no_zero_division [of "stats self"]
    by (auto simp: get_stats_def Let_def split: sum.splits)
next
  assume "reachable hs py_str self"
  then have c: "counters_ok self" by (simp add: reachable_invariant)
  then have s0: "0 \<le> requests_successful (stats self)"
    and sp: "requests_successful (stats self) \<le> requests_processed (stats self)"
    by (simp_all add: counters_ok_def)
  from success_rate_bounds [OF s0 sp] obtain v
    where v: "success_rate (stats self) = Inr (Finite v)" "0 \<le> v" "v \<le> 100" by auto
  from get_stats_rate [OF v(1)] obtain r
    where r: "get_stats now self = Inr r" "r_success_rate r = Finite v" by auto
  have "requests_processed (stats self) = 0 \<longrightarrow> v = 0"
  proof
    assume "requests_processed (stats self) = 0"
    with c have "requests_successful (stats self) = 0" by (simp add: counters_ok_def)
    then have "success_rate (stats self) = Inr (Finite 0)" by (rule success_rate_zero)
    with v(1) show "v = 0" by simp
  qed
  with r v show "\<exists>r v. get_stats now self = Inr r \<and> r_success_rate r = Finite v \<and>
               0 \<le> v \<and> v \<le> 100 \<and> (requests_processed (stats self) = 0 \<longrightarrow> v = 0)"
    by blast
next
  assume h: "0 \<le> requests_successful (stats self) \<and>
        requests_successful (stats self) \<le> requests_processed (stats self)"
  then have s0: "0 \<le> requests_successful (stats self)"
    and sp: "requests_successful (stats self) \<le> requests_processed (stats self)"
    by simp_all
  from success_rate_bounds [OF s0 sp] obtain v
    where v: "success_rate (stats self) = Inr (Finite v)" "0 \<le> v" "v \<le> 100" by auto
  from get_stats_rate [OF v(1)] obtain r
    where "get_stats now self = Inr r" "r_success_rate r = Finite v" by auto
  with v show "\<exists>r v. get_stats now self = Inr r \<and> r_success_rate r = Finite v \<and>
               0 \<le> v \<and> v \<le> 100"
    by blast
qed

text \<open>
  The theorem at two states: four requests of which three succeeded (rate 75.0), and the
  fresh client twenty seconds after it was built (nothing processed, rate 0.0).
\<close>

theorem get_stats_success_rate_witness:
  "(0::int) \<le> 3 \<and> (3::int) \<le> 4
   \<and> get_stats 20 \<lparr> stats = \<lparr> requests_processed = 4, requests_successful = 3, requests_failed = 1,
                              last_request_time = Some 15, uptime_start = 5 \<rparr>,
                    last_heartbeat = None, active_requests = Map.empty \<rparr> =
     Inr \<lparr> r_requests_processed = 4, r_requests_successful = 3, r_requests_failed = 1,
           r_success_rate = Finite 75, r_uptime_seconds = Finite 15,
           r_last_request_time = Some 15, r_last_heartbeat = None, r_active_requests = 0 \<rparr>
   \<and> (0::rat) \<le> 75 \<and> (75::rat) \<le> 100
   \<and> reachable placeholder_handlers example_str (init 5)
   \<and> requests_processed (stats (init 5)) = 0
   \<and> get_stats 25 (init 5) =
     Inr \<lparr> r_requests_processed = 0, r_requests_successful = 0, r_requests_failed = 0,
           r_success_rate = Finite 0, r_uptime_seconds = Finite 20,
           r_last_request_time = None, r_last_heartbeat = None, r_active_requests = 0 \<rparr>"
  using get_stats_success_rate [of 20
          "\<lparr> stats = \<lparr> requests_processed = 4, requests_successful = 3, requests_failed = 1,
                        last_request_time = Some 15, uptime_start = 5 \<rparr>,
              last_heartbeat = None, active_requests = Map.empty \<rparr>"
          placeholder_handlers example_str]
        get_stats_success_rate [of 25 "init 5" placeholder_handlers example_str]
        reachable.reach_init [of placeholder_handlers example_str 5]
  by (simp add: get_stats_def success_rate_def truediv_def float_mul_def float_sub_def init_def
        round_binary64_def ilog2_def round_half_even_def Let_def bitlen_numeral_simps)

section \<open>Properties of the API key check\<close>

subsection \<open>Splitting at the separator\<close>

lemma split_on_not_Nil: "split_on sep s \<noteq> []"
  by (induction s) (auto split: list.splits)

text \<open>The first piece runs up to the first separator; the rest is split in the same way.\<close>

lemma split_on_unfold:
  "split_on sep s =
     takeWhile (\<lambda>c. c \<noteq> sep) s #
       (case dropWhile (\<lambda>c. c \<noteq> sep) s of [] \<Rightarrow> [] | x # rest \<Rightarrow> split_on sep rest)"
proof (induction s)
  case Nil
  then show ?case by simp
next
  case (Cons c cs)
  show ?case
  proof (cases "c = sep")
    case True
    then show ?thesis by simp
  next
    case False
    with Cons show ?thesis by (simp split: list.splits)
  qed
qed

lemma dropWhile_sep:
  "sep \<in> set s \<Longrightarrow> \<exists>rest. dropWhile (\<lambda>c. c \<noteq> sep) s = sep # rest"
  by (induction s) auto

lemma split_on_second:
  assumes "sep \<in> set s"
  shows "list_index (split_on sep s) 1 =
           Inr (takeWhile (\<lambda>c. c \<noteq> sep) (drop 1 (dropWhile (\<lambda>c. c \<noteq> sep) s)))"
proof -
  from dropWhile_sep [OF assms] obtain rest where d: "dropWhile (\<lambda>c. c \<noteq> sep) s = sep # rest"
    by blast
  have s: "split_on sep s = takeWhile (\<lambda>c. c \<noteq> sep) s # split_on sep rest"
    using split_on_unfold [of sep s] d by simp
  obtain w ws where r: "split_on sep rest = w # ws"
    using split_on_not_Nil [of sep rest] by (cases "split_on sep rest") auto
  have w: "w = takeWhile (\<lambda>c. c \<noteq> sep) rest"
    using split_on_unfold [of sep rest] r by simp
  show ?thesis by (simp add: list_index_def s r w d)
qed

lemma startswith_append: "startswith s p \<Longrightarrow> s = p @ drop (length p) s"
  unfolding startswith_def by (metis append_take_drop_id)

lemma startswith_Bearer_space: "startswith h ''Bearer '' \<Longrightarrow> CHR '' '' \<in> set h"
proof -
  assume "startswith h ''Bearer ''"
  then have "h = ''Bearer '' @ drop (length ''Bearer '') h" by (rule startswith_append)
  then have "set h = set ''Bearer '' \<union> set (drop (length ''Bearer '') h)"
    by (metis set_append)
  then show ?thesis by simp
qed

text \<open>
  After the prefix test the index 1 is in range, so \<open>split(' ')[1]\<close> never raises, and it
  is the token after the first space.
\<close>

lemma provided_key_is_token:
  "startswith h ''Bearer '' \<Longrightarrow>
   list_index (split_on CHR '' '' h) (Suc 0) = Inr (token_after_first_space h)"
  unfolding token_after_first_space_def
  using split_on_second [of "CHR '' ''" h] startswith_Bearer_space [of h] by simp

subsection \<open>When the wrapped handler runs\<close>

text \<open>
  Claim C9. For every configured key, \<open>Authorization\<close> header, handler and state:
  \<^item> when \<open>Config.FLASK_API_KEY\<close> is unset or empty, the handler runs and its result is
    returned, whatever the header;
  \<^item> when it is set and the header is present, starts with \<open>Bearer\<close> and a space, and
    the token after the first space (up to the next space or the end) equals the key, the
    handler runs and its result is returned;
  \<^item> when it is set and that condition fails, the result is the status 401 with an error
    body, the handler is not called (the state is as before, and the result does not
    depend on the handler), and no exception is raised.
  The two outcomes differ, so with a key set the handler runs if and only if the condition
  holds.
\<close>

theorem require_api_key_gate:
  "(\<not> key_configured api_key \<longrightarrow>
      decorated_function api_key f auth_header s = (Inr (Returned (fst (f s))), snd (f s)))
   \<and> (key_configured api_key \<and> credentials_ok api_key auth_header \<longrightarrow>
      decorated_function api_key f auth_header s = (Inr (Returned (fst (f s))), snd (f s)))
   \<and> (key_configured api_key \<and> \<not> credentials_ok api_key auth_header \<longrightarrow>
      decorated_function api_key f auth_header s =
        (Inr (Json_status
           [(''error'', PStr (case auth_header of
                 None \<Rightarrow> ''API key required''
               | Some h \<Rightarrow> if startswith h ''Bearer '' then ''Invalid API key''
                           else ''API key required''))] 401), s))"
proof (intro conjI impI)
  assume "\<not> key_configured api_key"
  then show "decorated_function api_key f auth_header s = (Inr (Returned (fst (f s))), snd (f s))"
    by (simp add: decorated_function_def)
next
  assume a: "key_configured api_key \<and> credentials_ok api_key auth_header"
  then obtain h where h: "auth_header = Some h" "startswith h ''Bearer ''"
      "Some (token_after_first_space h) = api_key"
    by (auto simp: credentials_ok_def split: option.splits)
  from h(2) have ne: "h \<noteq> []" by (auto simp: startswith_def)
  show "decorated_function api_key f auth_header s = (Inr (Returned (fst (f s))), snd (f s))"
    using a h ne by (simp add: decorated_function_def provided_key_is_token)
next
  assume a: "key_configured api_key \<and> \<not> credentials_ok api_key auth_header"
  show "decorated_function api_key f auth_header s =
        (Inr (Json_status
           [(''error'', PStr (case auth_header of
                 None \<Rightarrow> ''API key required''
               | Some h \<Rightarrow> if startswith h ''Bearer '' then ''Invalid API key''
                           else ''API key required''))] 401), s)"
  proof (cases auth_header)
    case None
    with a show ?thesis by (simp add: decorated_function_def)
  next
    case (Some h)
    show ?thesis
    proof (cases "startswith h ''Bearer ''")
      case False
      with a Some show ?thesis by (simp add: decorated_function_def)
    next
      case True
      then have ne: "h \<noteq> []" by (auto simp: startswith_def)
      from a Some True have "Some (token_after_first_space h) \<noteq> api_key"
        by (simp add: credentials_ok_def)
      with a Some True ne show ?thesis
        by (simp add: decorated_function_def provided_key_is_token)
    qed
  qed
qed

text \<open>
  The theorem at concrete requests, with a handler that counts its calls: no key
  configured, the right key, a wrong key, a header of another scheme, and no header.
\<close>

theorem require_api_key_gate_witness:
  "\<not> key_configured None
   \<and> decorated_function None (\<lambda>n::nat. (''analytics'', Suc n)) None 0 =
       (Inr (Returned ''analytics''), 1)
   \<and> \<not> key_configured (Some [])
   \<and> decorated_function (Some []) (\<lambda>n::nat. (''analytics'', Suc n)) (Some ''Bearer x'') 0 =
       (Inr (Returned ''analytics''), 1)
   \<and> key_configured (Some ''secret-key'')
   \<and> credentials_ok (Some ''secret-key'') (Some ''Bearer secret-key'')
   \<and> decorated_function (Some ''secret-key'') (\<lambda>n::nat. (''analytics'', Suc n))
        (Some ''Bearer secret-key'') 0 = (Inr (Returned ''analytics''), 1)
   \<and> \<not> credentials_ok (Some ''secret-key'') (Some ''Bearer wrong'')
   \<and> decorated_function (Some ''secret-key'') (\<lambda>n::nat. (''analytics'', Suc n))
        (Some ''Bearer wrong'') 0 =
       (Inr (Json_status [(''error'', PStr ''Invalid API key'')] 401), 0)
   \<and> \<not> credentials_ok (Some ''secret-key'') (Some ''Basic secret-key'')
   \<and> decorated_function (Some ''secret-key'') (\<lambda>n::nat. (''analytics'', Suc n))
        (Some ''Basic secret-key'') 0 =
       (Inr (Json_status [(''error'', PStr ''API key required'')] 401), 0)
   \<and> \<not> credentials_ok (Some ''secret-key'') None
   \<and> decorated_function (Some ''secret-key'') (\<lambda>n::nat. (''analytics'', Suc n)) None 0 =
       (Inr (Json_status [(''error'', PStr ''API key required'')] 401), 0)"
  using require_api_key_gate [of None "\<lambda>n::nat. (''analytics'', Suc n)" None 0]
        require_api_key_gate [of "Some []" "\<lambda>n::nat. (''analytics'', Suc n)" "Some ''Bearer x''" 0]
        require_api_key_gate [of "Some ''secret-key''" "\<lambda>n::nat. (''analytics'', Suc n)"
          "Some ''Bearer secret-key''" 0]
        require_api_key_gate [of "Some ''secret-key''" "\<lambda>n::nat. (''analytics'', Suc n)"
          "Some ''Bearer wrong''" 0]
        require_api_key_gate [of "Some ''secret-key''" "\<lambda>n::nat. (''analytics'', Suc n)"
          "Some ''Basic secret-key''" 0]
        require_api_key_gate [of "Some ''secret-key''" "\<lambda>n::nat. (''analytics'', Suc n)" None 0]
  by (simp add: key_configured_def credentials_ok_def startswith_def token_after_first_space_def)

section \<open>Properties of the payload translator\<close>

subsection \<open>Tavern mode\<close>

lemma merge_leading_system_nonempty:
  "takeWhile (\<lambda>p. p_role p = ''system'') ps \<noteq> [] \<Longrightarrow>
   merge_leading_system ps =
     \<lparr> p_role = ''system'',
       p_text = join_blank_line (map p_text (takeWhile (\<lambda>p. p_role p = ''system'') ps)),
       p_attachments = [] \<rparr> # dropWhile (\<lambda>p. p_role p = ''system'') ps"
  by (simp add: merge_leading_system_def Let_def)

lemma merge_leading_system_empty:
  "takeWhile (\<lambda>p. p_role p = ''system'') ps = [] \<Longrightarrow> merge_leading_system ps = ps"
  by (simp add: merge_leading_system_def Let_def)

text \<open>
  Claim C4, as the description of the translator has it. With \<open>tavern_mode\<close> enabled,
  when the messages (after rules 2 to 4) start with a run of system messages, the
  translation succeeds and its templates are: one system template whose content is the
  texts of that run joined by a blank line, whose attachments are empty and whose position
  is the one of a system message; then the templates of the messages after the run; then
  the bypass message when \<open>bypass_mode\<close> is on. In particular, in direct chat and in
  battle mode with target \<open>A\<close>, the messages system \<open>S1\<close>, system \<open>S2\<close>, user
  \<open>Hi\<close> give a first template \<open>{role: system, content: "S1\n\nS2",
  participantPosition: "b", attachments: []}\<close> followed by \<open>{role: user, content: "Hi",
  participantPosition: "a"}\<close>, for every model map, identifiers and model name.
\<close>

theorem tavern_merges_leading_system:
  "(tavern_mode cfg \<and> process_messages suffix_of (req_messages req) = Inr ps \<and>
    takeWhile (\<lambda>p. p_role p = ''system'') ps \<noteq> [] \<longrightarrow>
      (\<exists>p. convert_openai_to_lmarena_payload model_map cfg suffix_of req sid mid = Inr p \<and>
           message_templates p =
             \<lparr> role = ''system'',
               content = join_blank_line (map p_text (takeWhile (\<lambda>p. p_role p = ''system'') ps)),
               participantPosition = participant_position cfg ''system'',
               attachments = [] \<rparr>
             # map (to_template cfg) (dropWhile (\<lambda>p. p_role p = ''system'') ps)
             @ (if bypass_mode cfg then [bypass_template] else [])))
   \<and> (tavern_mode cfg \<and> (conv_mode cfg = Direct_chat \<or> battle_target cfg = Side_A) \<longrightarrow>
      (\<exists>p. convert_openai_to_lmarena_payload model_map cfg suffix_of
              \<lparr> req_model = m,
                req_messages =
                  [\<lparr> msg_role = Some ''system'', msg_content = Some (Bare ''S1'') \<rparr>,
                   \<lparr> msg_role = Some ''system'', msg_content = Some (Bare ''S2'') \<rparr>,
                   \<lparr> msg_role = Some ''user'', msg_content = Some (Bare ''Hi'') \<rparr>] \<rparr>
              sid mid = Inr p \<and>
           take 2 (message_templates p) =
             [\<lparr> role = ''system'', content = ''S1'' @ [CHR 0x0A, CHR 0x0A] @ ''S2'',
                participantPosition = ''b'', attachments = [] \<rparr>,
              \<lparr> role = ''user'', content = ''Hi'', participantPosition = ''a'',
                attachments = [] \<rparr>]))"
proof (intro conjI impI)
  assume a: "tavern_mode cfg \<and> process_messages suffix_of (req_messages req) = Inr ps \<and>
    takeWhile (\<lambda>p. p_role p = ''system'') ps \<noteq> []"
  then show "\<exists>p. convert_openai_to_lmarena_payload model_map cfg suffix_of req sid mid = Inr p \<and>
           message_templates p =
             \<lparr> role = ''system'',
               content = join_blank_line (map p_text (takeWhile (\<lambda>p. p_role p = ''system'') ps)),
               participantPosition = participant_position cfg ''system'',
               attachments = [] \<rparr>
             # map (to_template cfg) (dropWhile (\<lambda>p. p_role p = ''system'') ps)
             @ (if bypass_mode cfg then [bypass_template] else [])"
    by (simp add: convert_openai_to_lmarena_payload_def shape_templates_def Let_def
          merge_leading_system_nonempty to_template_def)
next
  assume a: "tavern_mode cfg \<and> (conv_mode cfg = Direct_chat \<or> battle_target cfg = Side_A)"
  then show "\<exists>p. convert_openai_to_lmarena_payload model_map cfg suffix_of
              \<lparr> req_model = m,
                req_messages =
                  [\<lparr> msg_role = Some ''system'', msg_content = Some (Bare ''S1'') \<rparr>,
                   \<lparr> msg_role = Some ''system'', msg_content = Some (Bare ''S2'') \<rparr>,
                   \<lparr> msg_role = Some ''user'', msg_content = Some (Bare ''Hi'') \<rparr>] \<rparr>
              sid mid = Inr p \<and>
           take 2 (message_templates p) =
             [\<lparr> role = ''system'', content = ''S1'' @ [CHR 0x0A, CHR 0x0A] @ ''S2'',
                participantPosition = ''b'', attachments = [] \<rparr>,
              \<lparr> role = ''user'', content = ''Hi'', participantPosition = ''a'',
                attachments = [] \<rparr>]"
    by (auto simp add: convert_openai_to_lmarena_payload_def shape_templates_def Let_def
          merge_leading_system_def to_template_def process_openai_message_def normalize_role_def
          participant_position_def is_space_def split: conv_mode.splits)
qed

text \<open>The theorem at the request of the example, in direct chat and without bypass.\<close>

theorem tavern_merges_leading_system_witness:
  "tavern_mode \<lparr> conv_mode = Direct_chat, battle_target = Side_A, tavern_mode = True,
                 bypass_mode = False \<rparr>
   \<and> conv_mode \<lparr> conv_mode = Direct_chat, battle_target = Side_A, tavern_mode = True,
                 bypass_mode = False \<rparr> = Direct_chat
   \<and> process_messages (\<lambda>i. ''0'')
        [\<lparr> msg_role = Some ''system'', msg_content = Some (Bare ''S1'') \<rparr>,
         \<lparr> msg_role = Some ''system'', msg_content = Some (Bare ''S2'') \<rparr>,
         \<lparr> msg_role = Some ''user'', msg_content = Some (Bare ''Hi'') \<rparr>] =
       Inr [\<lparr> p_role = ''system'', p_text = ''S1'', p_attachments = [] \<rparr>,
            \<lparr> p_role = ''system'', p_text = ''S2'', p_attachments = [] \<rparr>,
            \<lparr> p_role = ''user'', p_text = ''Hi'', p_attachments = [] \<rparr>]
   \<and> takeWhile (\<lambda>p. p_role p = ''system'')
        [\<lparr> p_role = ''system'', p_text = ''S1'', p_attachments = [] \<rparr>,
         \<lparr> p_role = ''system'', p_text = ''S2'', p_attachments = [] \<rparr>,
         \<lparr> p_role = ''user'', p_text = ''Hi'', p_attachments = [] \<rparr>] \<noteq> []
   \<and> convert_openai_to_lmarena_payload Map.empty
       \<lparr> conv_mode = Direct_chat, battle_target = Side_A, tavern_mode = True, bypass_mode = False \<rparr>
       (\<lambda>i. ''0'')
       \<lparr> req_model = ''unknown-model'',
         req_messages =
           [\<lparr> msg_role = Some ''system'', msg_content = Some (Bare ''S1'') \<rparr>,
            \<lparr> msg_role = Some ''system'', msg_content = Some (Bare ''S2'') \<rparr>,
            \<lparr> msg_role = Some ''user'', msg_content = Some (Bare ''Hi'') \<rparr>] \<rparr>
       ''SID'' ''MID'' =
     Inr \<lparr> session_id = ''SID'', message_id = ''MID'', target_model_id = None,
           message_templates =
             [\<lparr> role = ''system'', content = ''S1'' @ [CHR 0x0A, CHR 0x0A] @ ''S2'',
                participantPosition = ''b'', attachments = [] \<rparr>,
              \<lparr> role = ''user'', content = ''Hi'', participantPosition = ''a'',
                attachments = [] \<rparr>] \<rparr>"
  using tavern_merges_leading_system [of
      "\<lparr> conv_mode = Direct_chat, battle_target = Side_A, tavern_mode = True, bypass_mode = False \<rparr>"
      "\<lambda>i. ''0''"
      "\<lparr> req_model = ''unknown-model'',
         req_messages =
           [\<lparr> msg_role = Some ''system'', msg_content = Some (Bare ''S1'') \<rparr>,
            \<lparr> msg_role = Some ''system'', msg_content = Some (Bare ''S2'') \<rparr>,
            \<lparr> msg_role = Some ''user'', msg_content = Some (Bare ''Hi'') \<rparr>] \<rparr>"
      "[\<lparr> p_role = ''system'', p_text = ''S1'', p_attachments = [] \<rparr>,
        \<lparr> p_role = ''system'', p_text = ''S2'', p_attachments = [] \<rparr>,
        \<lparr> p_role = ''user'', p_text = ''Hi'', p_attachments = [] \<rparr>]"
      Map.empty "''SID''" "''MID''" "''unknown-model''"]
  by (simp add: convert_openai_to_lmarena_payload_def shape_templates_def Let_def
        merge_leading_system_def to_template_def process_openai_message_def normalize_role_def
        participant_position_def is_space_def)

text \<open>
  The claim as it was written gives the two templates of the example the positions \<open>b\<close>
  and \<open>a\<close> whatever the mode. In battle mode with target \<open>B\<close> the messages follow the
  side \<open>b\<close> and a system message takes the opposite side, so the same request gives
  the system template the position \<open>a\<close> and the user template the position \<open>b\<close>.
\<close>

theorem tavern_example_battle_counterexample:
  "tavern_mode \<lparr> conv_mode = Battle, battle_target = Side_B, tavern_mode = True,
                 bypass_mode = False \<rparr>
   \<and> convert_openai_to_lmarena_payload Map.empty
       \<lparr> conv_mode = Battle, battle_target = Side_B, tavern_mode = True, bypass_mode = False \<rparr>
       (\<lambda>i. ''0'')
       \<lparr> req_model = ''unknown-model'',
         req_messages =
           [\<lparr> msg_role = Some ''system'', msg_content = Some (Bare ''S1'') \<rparr>,
            \<lparr> msg_role = Some ''system'', msg_content = Some (Bare ''S2'') \<rparr>,
            \<lparr> msg_role = Some ''user'', msg_content = Some (Bare ''Hi'') \<rparr>] \<rparr>
       ''SID'' ''MID'' =
     Inr \<lparr> session_id = ''SID'', message_id = ''MID'', target_model_id = None,
           message_templates =
             [\<lparr> role = ''system'', content = ''S1'' @ [CHR 0x0A, CHR 0x0A] @ ''S2'',
                participantPosition = ''a'', attachments = [] \<rparr>,
              \<lparr> role = ''user'', content = ''Hi'', participantPosition = ''b'',
                attachments = [] \<rparr>] \<rparr>
   \<and> ''a'' \<noteq> ''b''"
  by (simp add: convert_openai_to_lmarena_payload_def shape_templates_def Let_def
        merge_leading_system_def to_template_def process_openai_message_def normalize_role_def
        participant_position_def is_space_def)

subsection \<open>Bypass mode\<close>

lemma participant_position_bypass [simp]:
  "participant_position (cfg\<lparr> bypass_mode := b \<rparr>) r = participant_position cfg r"
  by (simp add: participant_position_def split: conv_mode.splits)

lemma to_template_bypass [simp]: "to_template (cfg\<lparr> bypass_mode := b \<rparr>) = to_template cfg"
  by (rule ext) (simp add: to_template_def)

lemma shape_templates_bypass:
  "bypass_mode cfg \<Longrightarrow>
   shape_templates cfg ps = shape_templates (cfg\<lparr> bypass_mode := False \<rparr>) ps @ [bypass_template]"
  by (simp add: shape_templates_def Let_def)

text \<open>
  Claim C5. With \<open>bypass_mode\<close> enabled, for every request, mode, target side and tavern
  setting: the translation fails exactly when it fails without bypass, and when it
  succeeds its templates are those of the translation without bypass followed by exactly
  one more template, \<open>{role: user, content: " ", participantPosition: "a",
  attachments: []}\<close>, which is therefore the last element of \<open>message_templates\<close>.
\<close>

theorem bypass_appends_trailing_message:
  "bypass_mode cfg \<longrightarrow>
     (case convert_openai_to_lmarena_payload model_map cfg suffix_of req sid mid of
        Inl e \<Rightarrow>
          convert_openai_to_lmarena_payload model_map (cfg\<lparr> bypass_mode := False \<rparr>) suffix_of req
            sid mid = Inl e
      | Inr p \<Rightarrow>
          last (message_templates p) =
            \<lparr> role = ''user'', content = '' '', participantPosition = ''a'', attachments = [] \<rparr> \<and>
          (\<exists>p'. convert_openai_to_lmarena_payload model_map (cfg\<lparr> bypass_mode := False \<rparr>)
                  suffix_of req sid mid = Inr p' \<and>
                message_templates p =
                  message_templates p' @
                  [\<lparr> role = ''user'', content = '' '', participantPosition = ''a'',
                     attachments = [] \<rparr>]))"
proof
  assume b: "bypass_mode cfg"
  show "case convert_openai_to_lmarena_payload model_map cfg suffix_of req sid mid of
        Inl e \<Rightarrow>
          convert_openai_to_lmarena_payload model_map (cfg\<lparr> bypass_mode := False \<rparr>) suffix_of req
            sid mid = Inl e
      | Inr p \<Rightarrow>
          last (message_templates p) =
            \<lparr> role = ''user'', content = '' '', participantPosition = ''a'', attachments = [] \<rparr> \<and>
          (\<exists>p'. convert_openai_to_lmarena_payload model_map (cfg\<lparr> bypass_mode := False \<rparr>)
                  suffix_of req sid mid = Inr p' \<and>
                message_templates p =
                  message_templates p' @
                  [\<lparr> role = ''user'', content = '' '', participantPosition = ''a'',
                     attachments = [] \<rparr>])"
  proof (cases "process_messages suffix_of (req_messages req)")
    case (Inl e)
    then show ?thesis by (simp add: convert_openai_to_lmarena_payload_def)
  next
    case (Inr ps)
    then show ?thesis
      using shape_templates_bypass [OF b, of ps]
      by (simp add: convert_openai_to_lmarena_payload_def bypass_template_def)
  qed
qed

text \<open>The theorem at the request whose only message is user \<open>Hi\<close>.\<close>

theorem bypass_appends_trailing_message_witness:
  "bypass_mode \<lparr> conv_mode = Direct_chat, battle_target = Side_A, tavern_mode = False,
                 bypass_mode = True \<rparr>
   \<and> convert_openai_to_lmarena_payload Map.empty
       \<lparr> conv_mode = Direct_chat, battle_target = Side_A, tavern_mode = False, bypass_mode = True \<rparr>
       (\<lambda>i. ''0'')
       \<lparr> req_model = ''unknown'',
         req_messages = [\<lparr> msg_role = Some ''user'', msg_content = Some (Bare ''Hi'') \<rparr>] \<rparr>
       ''SID'' ''MID'' =
     Inr \<lparr> session_id = ''SID'', message_id = ''MID'', target_model_id = None,
           message_templates =
             [\<lparr> role = ''user'', content = ''Hi'', participantPosition = ''a'', attachments = [] \<rparr>,
              \<lparr> role = ''user'', content = '' '', participantPosition = ''a'', attachments = [] \<rparr>] \<rparr>
   \<and> convert_openai_to_lmarena_payload Map.empty
       \<lparr> conv_mode = Direct_chat, battle_target = Side_A, tavern_mode = False, bypass_mode = False \<rparr>
       (\<lambda>i. ''0'')
       \<lparr> req_model = ''unknown'',
         req_messages = [\<lparr> msg_role = Some ''user'', msg_content = Some (Bare ''Hi'') \<rparr>] \<rparr>
       ''SID'' ''MID'' =
     Inr \<lparr> session_id = ''SID'', message_id = ''MID'', target_model_id = None,
           message_templates =
             [\<lparr> role = ''user'', content = ''Hi'', participantPosition = ''a'', attachments = [] \<rparr>] \<rparr>"
  using bypass_appends_trailing_message [of
      "\<lparr> conv_mode = Direct_chat, battle_target = Side_A, tavern_mode = False, bypass_mode = True \<rparr>"
      Map.empty "\<lambda>i. ''0''"
      "\<lparr> req_model = ''unknown'',
         req_messages = [\<lparr> msg_role = Some ''user'', msg_content = Some (Bare ''Hi'') \<rparr>] \<rparr>"
      "''SID''" "''MID''"]
  by (simp add: convert_openai_to_lmarena_payload_def shape_templates_def Let_def
        to_template_def process_openai_message_def normalize_role_def
        participant_position_def is_space_def bypass_template_def)

end
